theory Spec2Isabelle
  imports Complex_Main
begin

section \<open>Stationarity and detrending (ADF/KPSS): the notebook as HOL functions\<close>

text \<open>
  The development follows the notebook "Stationarity and detrending (ADF/KPSS)".
  Its code cells define two wrappers, \<^verbatim>\<open>adf_test\<close> and \<^verbatim>\<open>kpss_test\<close>, around the
  library routines \<^verbatim>\<open>adfuller\<close> and \<^verbatim>\<open>kpss\<close>, difference one column of a table and
  run the wrappers on the result; its markdown cells give the rule that combines the
  two tests into a verdict.

  A pandas column of floats is a list of observations. A missing entry (pandas' NaN)
  is \<open>None\<close>; a present entry is the real number a finite float64 stands for.
  Arithmetic on observations rounds as float64 arithmetic does. A result beyond the
  largest float64 is an infinity on the machine; the model has no infinities and
  keeps the rounded number there, which like an infinity is not NaN.
\<close>

subsection \<open>Data model\<close>

type_synonym observation = "real option"

type_synonym series = "observation list"

text \<open>A table of labelled numbers, as \<^verbatim>\<open>pd.Series(values, index=labels)\<close> prints it.\<close>

type_synonym labelled = "(string \<times> real) list"

record TestResult =
  statistic :: real
  p_value :: real
  critical_values :: labelled
  lags_used :: nat

datatype StationarityVerdict =
  Stationary | NonStationary | TrendStationary | DifferenceStationary

datatype error = InsufficientDataError | NonFiniteValueError

subsection \<open>The decision rules of the markdown cell (Case 1 to Case 4)\<close>

text \<open>
  Modelled from the spec: the boundary of the comparison, missing from the notebook, is
  the table header's "p \<le> \<alpha> (reject ...)". The notebook rejects a null hypothesis
  "based upon the significance level of 0.05 and the p-value" and does not say which
  way a p-value equal to the level goes.
\<close>

definition rejects_null :: "real \<Rightarrow> real \<Rightarrow> bool" where
  "rejects_null p alpha = (p \<le> alpha)"

text \<open>
  ADF, null hypothesis "the series has a unit root": rejecting it is the evidence that
  the series is stationary ("there is evidence for rejecting the null hypothesis ...
  Hence, the series is strict stationary now").
\<close>

definition adf_indicates_stationarity :: "TestResult \<Rightarrow> real \<Rightarrow> bool" where
  "adf_indicates_stationarity adf alpha = rejects_null (p_value adf) alpha"

text \<open>
  KPSS, null hypothesis "the process is trend stationary": the hypotheses are "opposite
  that of the ADF test", so the series is stationary when the null hypothesis can not
  be rejected.
\<close>

definition kpss_indicates_stationarity :: "TestResult \<Rightarrow> real \<Rightarrow> bool" where
  "kpss_indicates_stationarity kpss alpha = (\<not> rejects_null (p_value kpss) alpha)"

text \<open>
  The four cases, in the cell's order. The first argument is "ADF indicates
  stationarity", the second "KPSS indicates stationarity".
  \<^item> Case 1: both tests conclude that the series is not stationary.
  \<^item> Case 2: both tests conclude that the series is stationary.
  \<^item> Case 3: KPSS indicates stationarity and ADF indicates non-stationarity.
  \<^item> Case 4: KPSS indicates non-stationarity and ADF indicates stationarity.
\<close>

fun stationarity_case :: "bool \<Rightarrow> bool \<Rightarrow> StationarityVerdict" where
  "stationarity_case False False = NonStationary"
| "stationarity_case True True = Stationary"
| "stationarity_case False True = TrendStationary"
| "stationarity_case True False = DifferenceStationary"

definition Classifier :: "TestResult \<Rightarrow> TestResult \<Rightarrow> real \<Rightarrow> StationarityVerdict" where
  "Classifier adf kpss alpha =
     stationarity_case (adf_indicates_stationarity adf alpha)
       (kpss_indicates_stationarity kpss alpha)"

subsection \<open>Differencing: \<^verbatim>\<open>s - s.shift(1)\<close> and \<^verbatim>\<open>dropna()\<close>\<close>

text \<open>
  \<^verbatim>\<open>s.shift(k)\<close> for \<open>k \<ge> 0\<close> keeps the index and the length, moves every entry
  \<open>k\<close> places down and fills the first \<open>k\<close> places with NaN.
\<close>

definition shift :: "nat \<Rightarrow> series \<Rightarrow> series" where
  "shift k s = take (length s) (replicate k None @ s)"

text \<open>
  The columns hold float64 numbers, so \<^verbatim>\<open>-\<close> and \<^verbatim>\<open>+\<close> on them are IEEE 754
  binary64 operations: the exact result, rounded to the nearest number with a 53-bit
  significand, a tie going to the even significand.

  \<open>round_half_even\<close> rounds a real to the nearest integer, a tie to the even one.
\<close>

definition round_half_even :: "real \<Rightarrow> int" where
  "round_half_even q =
     (let f = \<lfloor>q\<rfloor>; r = q - of_int f in
      if r < 1/2 then f else if 1/2 < r then f + 1 else if even f then f else f + 1)"

text \<open>
  \<open>f64_normalise fuel k y\<close> scales a magnitude \<open>y\<close> by powers of two until it lies
  in \<open>[2^52, 2^53)\<close>, and counts the exponent \<open>k\<close> of the unit in the last place;
  the exponent stops at \<open>-1074\<close>, the unit of the subnormal numbers. The magnitude it
  started from is \<open>y * 2^k\<close> throughout. Exponents of float64 lie between \<open>-1074\<close>
  and \<open>971\<close>, so 1100 steps are enough from \<open>k = 0\<close>.
\<close>

fun f64_normalise :: "nat \<Rightarrow> int \<Rightarrow> real \<Rightarrow> int \<times> real" where
  "f64_normalise 0 k y = (k, y)"
| "f64_normalise (Suc fuel) k y =
     (if 2 ^ 53 \<le> y then f64_normalise fuel (k + 1) (y / 2)
      else if y < 2 ^ 52 \<and> - 1074 < k then f64_normalise fuel (k - 1) (2 * y)
      else (k, y))"

definition f64_round :: "real \<Rightarrow> real" where
  "f64_round x =
     (if x = 0 then 0
      else case f64_normalise 1100 0 \<bar>x\<bar> of
        (k, y) \<Rightarrow> sgn x * of_int (round_half_even y) * 2 powi k)"

text \<open>The largest float64, and the finite float64 numbers: those that rounding leaves alone.\<close>

definition f64_max :: real where
  "f64_max = (2 ^ 53 - 1) * 2 ^ 971"

definition is_f64 :: "real \<Rightarrow> bool" where
  "is_f64 x = (f64_round x = x \<and> \<bar>x\<bar> \<le> f64_max)"

text \<open>
  Float subtraction and addition: NaN on either side gives NaN, and two numbers give
  the exact result rounded.
\<close>

fun sub_obs :: "observation \<Rightarrow> observation \<Rightarrow> observation" where
  "sub_obs (Some a) (Some b) = Some (f64_round (a - b))"
| "sub_obs _ _ = None"

fun add_obs :: "observation \<Rightarrow> observation \<Rightarrow> observation" where
  "add_obs (Some a) (Some b) = Some (f64_round (a + b))"
| "add_obs _ _ = None"

text \<open>
  \<^verbatim>\<open>a - b\<close> on two columns with the same index works entry by entry.
\<close>

definition series_sub :: "series \<Rightarrow> series \<Rightarrow> series" where
  "series_sub a b = map2 sub_obs a b"

text \<open>\<^verbatim>\<open>s.dropna()\<close> keeps the entries that are not NaN, in order.\<close>

definition dropna :: "series \<Rightarrow> series" where
  "dropna s = filter (\<lambda>v. v \<noteq> None) s"

text \<open>
  The cell
  \<^verbatim>\<open>sunspots["SUNACTIVITY_diff"] = sunspots["SUNACTIVITY"] - sunspots["SUNACTIVITY"].shift(1)\<close>
\<close>

definition SUNACTIVITY_diff :: "series \<Rightarrow> series" where
  "SUNACTIVITY_diff sunactivity = series_sub sunactivity (shift 1 sunactivity)"

text \<open>
  Modelled from the spec: the inverse the round trip speaks of, missing from the
  notebook, is "summing a first-differenced series with its first original value": the
  running sums of the differences, started at that value, in float64 like the column.
\<close>

fun cumsum_from :: "observation \<Rightarrow> series \<Rightarrow> series" where
  "cumsum_from x0 [] = [x0]"
| "cumsum_from x0 (d # ds) = x0 # cumsum_from (add_obs x0 d) ds"

text \<open>
  A Series of finite float64 observations, none missing; and a Series whose successive
  differences need no rounding: each exact difference is itself a finite float64.
\<close>

definition f64_series :: "series \<Rightarrow> bool" where
  "f64_series s = list_all (\<lambda>v. case v of None \<Rightarrow> False | Some x \<Rightarrow> is_f64 x) s"

fun differences_exact :: "series \<Rightarrow> bool" where
  "differences_exact (Some a # Some b # rest) =
     (is_f64 (b - a) \<and> differences_exact (Some b # rest))"
| "differences_exact _ = True"

subsection \<open>The wrappers \<^verbatim>\<open>adf_test\<close> and \<^verbatim>\<open>kpss_test\<close>\<close>

text \<open>
  The library routines \<^verbatim>\<open>adfuller\<close> and \<^verbatim>\<open>kpss\<close> are not part of the notebook: the
  wrappers take them as a parameter. A routine gets the series and the keyword
  arguments the wrapper writes out (strings), and either raises (\<open>Inl\<close>) or returns its
  tuple. The wrappers read \<^verbatim>\<open>dftest[0:4]\<close>, \<^verbatim>\<open>dftest[4]\<close>, \<^verbatim>\<open>kpsstest[0:3]\<close> and
  \<^verbatim>\<open>kpsstest[3]\<close>; the fields below are those components, named by the labels the
  wrappers give them. A dictionary of critical values is a list of its items in
  iteration order.
\<close>

record adfuller_tuple =
  adf_statistic :: real
  adf_pvalue :: real
  adf_lags_used :: nat
  adf_nobs_used :: nat
  adf_critical :: labelled

record kpss_tuple =
  kpss_statistic :: real
  kpss_pvalue :: real
  kpss_lags_used :: nat
  kpss_critical :: labelled

text \<open>What a wrapper has printed: a line of text, or a labelled table.\<close>

datatype printed = Line string | Table labelled

text \<open>
  \<^verbatim>\<open>out[label] = v\<close> on a table with distinct labels: overwrite the entry of that
  label, or append a new one.
\<close>

fun setitem :: "labelled \<Rightarrow> string \<Rightarrow> real \<Rightarrow> labelled" where
  "setitem [] label v = [(label, v)]"
| "setitem ((l, w) # rest) label v =
     (if l = label then (l, v) # rest else (l, w) # setitem rest label v)"

text \<open>
  \<^verbatim>\<open>for key, value in crit.items(): out["Critical Value (%s)" % key] = value\<close>
\<close>

fun critical_rows :: "labelled \<Rightarrow> labelled \<Rightarrow> labelled" where
  "critical_rows out [] = out"
| "critical_rows out ((key, v) # rest) =
     critical_rows (setitem out (''Critical Value ('' @ key @ '')'') v) rest"

definition dfoutput :: "adfuller_tuple \<Rightarrow> labelled" where
  "dfoutput dftest =
     critical_rows
       [(''Test Statistic'', adf_statistic dftest),
        (''p-value'', adf_pvalue dftest),
        (''#Lags Used'', real (adf_lags_used dftest)),
        (''Number of Observations Used'', real (adf_nobs_used dftest))]
       (adf_critical dftest)"

definition kpss_output :: "kpss_tuple \<Rightarrow> labelled" where
  "kpss_output kpsstest =
     critical_rows
       [(''Test Statistic'', kpss_statistic kpsstest),
        (''p-value'', kpss_pvalue kpsstest),
        (''Lags Used'', real (kpss_lags_used kpsstest))]
       (kpss_critical kpsstest)"

text \<open>
  \<^verbatim>\<open>adf_test(timeseries)\<close>: print the heading, call \<^verbatim>\<open>adfuller(timeseries, autolag="AIC")\<close>,
  print the table. There is no \<^verbatim>\<open>try\<close>: an exception of the routine leaves
  the wrapper as it is, after the heading has been printed. The wrapper returns
  nothing; its effect is the printed output, passed in and returned.
\<close>

definition adf_test ::
  "(series \<Rightarrow> string \<Rightarrow> 'e + adfuller_tuple) \<Rightarrow> printed list \<Rightarrow> series
     \<Rightarrow> printed list \<times> ('e + unit)" where
  "adf_test adfuller out timeseries =
     (let out1 = out @ [Line ''Results of Dickey-Fuller Test:''] in
      case adfuller timeseries ''AIC'' of
        Inl e \<Rightarrow> (out1, Inl e)
      | Inr dftest \<Rightarrow> (out1 @ [Table (dfoutput dftest)], Inr ()))"

text \<open>
  \<^verbatim>\<open>kpss_test(timeseries)\<close>: the same around
  \<^verbatim>\<open>kpss(timeseries, regression="c", nlags="auto")\<close>.
\<close>

definition kpss_test ::
  "(series \<Rightarrow> string \<Rightarrow> string \<Rightarrow> 'e + kpss_tuple) \<Rightarrow> printed list \<Rightarrow> series
     \<Rightarrow> printed list \<times> ('e + unit)" where
  "kpss_test kpss out timeseries =
     (let out1 = out @ [Line ''Results of KPSS Test:''] in
      case kpss timeseries ''c'' ''auto'' of
        Inl e \<Rightarrow> (out1, Inl e)
      | Inr kpsstest \<Rightarrow> (out1 @ [Table (kpss_output kpsstest)], Inr ()))"



subsection \<open>The library routines, as the specification words them\<close>

text \<open>
  Modelled from the spec: the routine \<^verbatim>\<open>adfuller\<close>, missing from the notebook, "fails
  with InsufficientDataError when series length is below the minimum required for the
  chosen lag order"; NaN in the input is a NonFiniteValueError. The minimum length (by
  lag-selection criterion) and the numerical computation are parameters.
\<close>

definition UnitRootTest ::
  "(string \<Rightarrow> nat) \<Rightarrow> (series \<Rightarrow> string \<Rightarrow> adfuller_tuple) \<Rightarrow> series \<Rightarrow> string
     \<Rightarrow> error + adfuller_tuple" where
  "UnitRootTest min_length compute x autolag =
     (if length x < min_length autolag then Inl InsufficientDataError
      else if None \<in> set x then Inl NonFiniteValueError
      else Inr (compute x autolag))"

text \<open>
  Modelled from the spec: the routine \<^verbatim>\<open>kpss\<close>, missing from the notebook, has the
  "same failure mode as 4.1 for too-short input". The minimum length goes by the
  lag-selection rule.
\<close>

definition StationarityTest ::
  "(string \<Rightarrow> nat) \<Rightarrow> (series \<Rightarrow> string \<Rightarrow> string \<Rightarrow> kpss_tuple) \<Rightarrow> series \<Rightarrow> string
     \<Rightarrow> string \<Rightarrow> error + kpss_tuple" where
  "StationarityTest min_length compute x regression nlags =
     (if length x < min_length nlags then Inl InsufficientDataError
      else if None \<in> set x then Inl NonFiniteValueError
      else Inr (compute x regression nlags))"

section \<open>Properties\<close>

subsection \<open>The Classifier\<close>

text \<open>
  C1. For every pair of TestResults (ADF, KPSS) and every significance threshold
  \<open>\<alpha>\<close>, the Classifier returns the verdict of the four-row table:
  ADF p > \<open>\<alpha>\<close> and KPSS p > \<open>\<alpha>\<close> give TrendStationary;
  ADF p \<le> \<open>\<alpha>\<close> and KPSS p > \<open>\<alpha>\<close> give Stationary;
  ADF p > \<open>\<alpha>\<close> and KPSS p \<le> \<open>\<alpha>\<close> give NonStationary;
  ADF p \<le> \<open>\<alpha>\<close> and KPSS p \<le> \<open>\<alpha>\<close> give DifferenceStationary.
\<close>

theorem Classifier_table:
  "(p_value adf > alpha \<and> p_value kpss > alpha
      \<longrightarrow> Classifier adf kpss alpha = TrendStationary) \<and>
   (p_value adf \<le> alpha \<and> p_value kpss > alpha
      \<longrightarrow> Classifier adf kpss alpha = Stationary) \<and>
   (p_value adf > alpha \<and> p_value kpss \<le> alpha
      \<longrightarrow> Classifier adf kpss alpha = NonStationary) \<and>
   (p_value adf \<le> alpha \<and> p_value kpss \<le> alpha
      \<longrightarrow> Classifier adf kpss alpha = DifferenceStationary)"
  by (simp add: Classifier_def adf_indicates_stationarity_def
      kpss_indicates_stationarity_def rejects_null_def)

theorem Classifier_table_witness:
  "Classifier \<lparr>statistic = -1, p_value = 1/2, critical_values = [], lags_used = 8\<rparr>
     \<lparr>statistic = 1/10, p_value = 1/10, critical_values = [], lags_used = 7\<rparr> (5/100)
     = TrendStationary \<and>
   Classifier \<lparr>statistic = -15, p_value = 1/1000, critical_values = [], lags_used = 7\<rparr>
     \<lparr>statistic = 1/50, p_value = 1/10, critical_values = [], lags_used = 0\<rparr> (5/100)
     = Stationary \<and>
   Classifier \<lparr>statistic = -2, p_value = 1/2, critical_values = [], lags_used = 8\<rparr>
     \<lparr>statistic = 2/3, p_value = 1/60, critical_values = [], lags_used = 7\<rparr> (5/100)
     = NonStationary \<and>
   Classifier \<lparr>statistic = -4, p_value = 1/100, critical_values = [], lags_used = 8\<rparr>
     \<lparr>statistic = 2/3, p_value = 5/100, critical_values = [], lags_used = 7\<rparr> (5/100)
     = DifferenceStationary"
  using
    Classifier_table [where alpha = "5/100"
      and adf = "\<lparr>statistic = -1, p_value = 1/2, critical_values = [], lags_used = 8\<rparr>"
      and kpss = "\<lparr>statistic = 1/10, p_value = 1/10, critical_values = [], lags_used = 7\<rparr>"]
    Classifier_table [where alpha = "5/100"
      and adf = "\<lparr>statistic = -15, p_value = 1/1000, critical_values = [], lags_used = 7\<rparr>"
      and kpss = "\<lparr>statistic = 1/50, p_value = 1/10, critical_values = [], lags_used = 0\<rparr>"]
    Classifier_table [where alpha = "5/100"
      and adf = "\<lparr>statistic = -2, p_value = 1/2, critical_values = [], lags_used = 8\<rparr>"
      and kpss = "\<lparr>statistic = 2/3, p_value = 1/60, critical_values = [], lags_used = 7\<rparr>"]
    Classifier_table [where alpha = "5/100"
      and adf = "\<lparr>statistic = -4, p_value = 1/100, critical_values = [], lags_used = 8\<rparr>"
      and kpss = "\<lparr>statistic = 2/3, p_value = 5/100, critical_values = [], lags_used = 7\<rparr>"]
  by simp

subsection \<open>Differencing\<close>

lemma f64_normalise_numeral:
  "f64_normalise (numeral n) k y =
     (if 2 ^ 53 \<le> y then f64_normalise (pred_numeral n) (k + 1) (y / 2)
      else if y < 2 ^ 52 \<and> - 1074 < k then f64_normalise (pred_numeral n) (k - 1) (2 * y)
      else (k, y))"
  by (simp add: numeral_eq_Suc)

lemma zip_take_length: "zip xs (take (length xs) ys) = zip xs ys"
proof (induction xs arbitrary: ys)
  case Nil
  then show ?case by simp
next
  case (Cons x xs)
  then show ?case by (cases ys) simp_all
qed

text \<open>The difference column of a non-empty column: NaN, then the successive differences.\<close>

lemma SUNACTIVITY_diff_Cons:
  "SUNACTIVITY_diff (x # xs) = None # map2 sub_obs xs (x # xs)"
proof -
  have "shift 1 (x # xs) = None # take (length xs) (x # xs)"
    by (simp add: shift_def)
  then have "SUNACTIVITY_diff (x # xs)
      = sub_obs x None # map2 sub_obs xs (take (length xs) (x # xs))"
    by (simp add: SUNACTIVITY_diff_def series_sub_def)
  moreover have "sub_obs x None = None"
    by (cases x) simp_all
  ultimately show ?thesis
    by (simp only: zip_take_length)
qed

lemma sub_obs_None_iff: "sub_obs a b = None \<longleftrightarrow> a = None \<or> b = None"
  by (cases a; cases b) simp_all

lemma map2_sub_obs_defined:
  assumes "None \<notin> set xs" and "None \<notin> set ys"
  shows "None \<notin> set (map2 sub_obs xs ys)"
proof
  assume "None \<in> set (map2 sub_obs xs ys)"
  then obtain a b where "(a, b) \<in> set (zip xs ys)" and "sub_obs a b = None"
    by force
  then have "a \<in> set xs" and "b \<in> set ys" and "a = None \<or> b = None"
    by (auto dest: set_zip_leftD set_zip_rightD simp: sub_obs_None_iff)
  with assms show False by auto
qed

lemma dropna_id: "None \<notin> set s \<Longrightarrow> dropna s = s"
  unfolding dropna_def by (rule filter_True) metis


lemma dropna_diff:
  assumes "None \<notin> set s"
  shows "dropna (SUNACTIVITY_diff s) = map2 sub_obs (tl s) s"
proof (cases s)
  case Nil
  then show ?thesis
    by (simp add: SUNACTIVITY_diff_def series_sub_def shift_def dropna_def)
next
  case (Cons x xs)
  with assms have "None \<notin> set (map2 sub_obs xs (x # xs))"
    by (intro map2_sub_obs_defined) auto
  then have "dropna (map2 sub_obs xs (x # xs)) = map2 sub_obs xs (x # xs)"
    by (rule dropna_id)
  with Cons show ?thesis
    by (simp add: SUNACTIVITY_diff_Cons dropna_def)
qed

lemma adf_test_cong:
  "f x ''AIC'' = g x ''AIC'' \<Longrightarrow> adf_test f out x = adf_test g out x"
  by (simp add: adf_test_def)

lemma kpss_test_cong:
  "f x ''c'' ''auto'' = g x ''c'' ''auto'' \<Longrightarrow> kpss_test f out x = kpss_test g out x"
  by (simp add: kpss_test_def)



lemma f64_series_Cons:
  "f64_series (v # s) \<longleftrightarrow> (\<exists>x. v = Some x \<and> is_f64 x) \<and> f64_series s"
  by (cases v) (simp_all add: f64_series_def)

lemma f64_series_defined: "f64_series s \<Longrightarrow> None \<notin> set s"
  by (induction s) (auto simp: f64_series_Cons f64_series_def)

text \<open>
  Where no subtraction rounds, adding a difference to the earlier observation gives
  the later one, and the running sums walk along the original series.
\<close>

lemma cumsum_from_diffs:
  "f64_series (x # xs) \<Longrightarrow> differences_exact (x # xs)
    \<Longrightarrow> cumsum_from x (map2 sub_obs xs (x # xs)) = x # xs"
proof (induction xs arbitrary: x)
  case Nil
  then show ?case by simp
next
  case (Cons y ys)
  from Cons.prems(1) obtain a b where ab: "x = Some a" "y = Some b"
    and b: "is_f64 b" and rest: "f64_series (y # ys)"
    by (auto simp: f64_series_Cons)
  from Cons.prems(2) have d: "is_f64 (b - a)" and ds: "differences_exact (y # ys)"
    by (simp_all add: ab)
  have "sub_obs y x = Some (b - a)"
    using d by (simp add: ab is_f64_def)
  then have "add_obs x (sub_obs y x) = y"
    using b by (simp add: ab is_f64_def)
  then show ?case
    using Cons.IH [OF rest ds] by simp
qed

text \<open>
  C3, amended. Round trip: for every non-empty Series of finite float64 observations
  (none missing) whose successive differences are exact in float64 (each
  \<open>original[i+1] - original[i]\<close> is itself a float64 number, so the subtraction does
  not round), the running sums of its first-differenced series, started at the first
  original value, are the original series. Among such Series the first value and the
  differenced series thus determine the original.
\<close>

theorem round_trip:
  assumes "s \<noteq> []" and "f64_series s" and "differences_exact s"
  shows "cumsum_from (hd s) (dropna (SUNACTIVITY_diff s)) = s \<and>
    (\<forall>t. t \<noteq> [] \<and> f64_series t \<and> differences_exact t \<and> hd t = hd s \<and>
        dropna (SUNACTIVITY_diff t) = dropna (SUNACTIVITY_diff s)
      \<longrightarrow> t = s)"
proof -
  have sums: "cumsum_from (hd u) (dropna (SUNACTIVITY_diff u)) = u"
    if "u \<noteq> []" and "f64_series u" and "differences_exact u" for u
  proof -
    from that(1) obtain x xs where u: "u = x # xs"
      by (cases u) auto
    have "None \<notin> set u"
      using that(2) by (rule f64_series_defined)
    then have "dropna (SUNACTIVITY_diff u) = map2 sub_obs xs (x # xs)"
      by (simp add: dropna_diff u)
    moreover have "cumsum_from x (map2 sub_obs xs (x # xs)) = x # xs"
      using that(2,3) unfolding u by (rule cumsum_from_diffs)
    ultimately show ?thesis
      by (simp add: u)
  qed
  have "t = s"
    if "t \<noteq> [] \<and> f64_series t \<and> differences_exact t \<and> hd t = hd s \<and>
        dropna (SUNACTIVITY_diff t) = dropna (SUNACTIVITY_diff s)" for t
  proof -
    from that have "cumsum_from (hd s) (dropna (SUNACTIVITY_diff s)) = t"
      using sums [of t] by simp
    with sums [OF assms] show ?thesis by simp
  qed
  with sums [OF assms] show ?thesis by blast
qed

theorem round_trip_witness:
  "f64_series [Some 5, Some 3, Some 8] \<and>
   differences_exact [Some 5, Some 3, Some 8] \<and>
   dropna (SUNACTIVITY_diff [Some 5, Some 3, Some 8]) = [Some (- 2), Some 5] \<and>
   cumsum_from (Some 5) (dropna (SUNACTIVITY_diff [Some 5, Some 3, Some 8]))
     = [Some 5, Some 3, Some 8]"
  using round_trip [of "[Some 5, Some 3, Some 8]"]
  by (simp add: SUNACTIVITY_diff_def series_sub_def shift_def dropna_def
      f64_series_def is_f64_def f64_max_def
      f64_round_def f64_normalise_numeral round_half_even_def)

text \<open>
  The claim as first worded has the round trip exact for every non-empty Series.
  \<^item> The column \<open>-1, 1 + 2^(-52)\<close> holds two float64 numbers. Their difference
    \<open>2 + 2^(-52)\<close> lies halfway between the neighbouring float64 numbers \<open>2\<close> and
    \<open>2 + 2^(-51)\<close> and rounds to \<open>2\<close>, which is the difference of the column
    \<open>-1, 1\<close> as well: two columns with the same first value and the same differenced
    series, so the running sums (or any other rule) cannot give back both. They give
    \<open>-1, 1\<close>.
  \<^item> The column \<open>0.2, 0.9\<close>, as the float64 numbers these decimals denote
    (\<open>3602879701896397 / 2^54\<close> and \<open>8106479329266893 / 2^53\<close>): the difference
    rounds to \<open>3152519739159347 / 2^52\<close>, and \<open>0.2\<close> plus that rounds to
    \<open>2026619832316723 / 2^51\<close>, printed \<^verbatim>\<open>0.8999999999999999\<close>, not \<open>0.9\<close>.
\<close>

theorem round_trip_counterexample:
  "f64_series [Some (- 1), Some (1 + 1 / 2 ^ 52)] \<and>
   dropna (SUNACTIVITY_diff [Some (- 1), Some (1 + 1 / 2 ^ 52)]) = [Some 2] \<and>
   dropna (SUNACTIVITY_diff [Some (- 1), Some 1]) = [Some 2] \<and>
   cumsum_from (hd [Some (- 1), Some (1 + 1 / 2 ^ 52)])
       (dropna (SUNACTIVITY_diff [Some (- 1), Some (1 + 1 / 2 ^ 52)]))
     = [Some (- 1), Some 1] \<and>
   cumsum_from (hd [Some (- 1), Some (1 + 1 / 2 ^ 52)])
       (dropna (SUNACTIVITY_diff [Some (- 1), Some (1 + 1 / 2 ^ 52)]))
     \<noteq> [Some (- 1), Some (1 + 1 / 2 ^ 52)] \<and>
   f64_series [Some (3602879701896397 / 2 ^ 54), Some (8106479329266893 / 2 ^ 53)] \<and>
   dropna (SUNACTIVITY_diff
       [Some (3602879701896397 / 2 ^ 54), Some (8106479329266893 / 2 ^ 53)])
     = [Some (3152519739159347 / 2 ^ 52)] \<and>
   cumsum_from (hd [Some (3602879701896397 / 2 ^ 54), Some (8106479329266893 / 2 ^ 53)])
       (dropna (SUNACTIVITY_diff
          [Some (3602879701896397 / 2 ^ 54), Some (8106479329266893 / 2 ^ 53)]))
     = [Some (3602879701896397 / 2 ^ 54), Some (2026619832316723 / 2 ^ 51)] \<and>
   cumsum_from (hd [Some (3602879701896397 / 2 ^ 54), Some (8106479329266893 / 2 ^ 53)])
       (dropna (SUNACTIVITY_diff
          [Some (3602879701896397 / 2 ^ 54), Some (8106479329266893 / 2 ^ 53)]))
     \<noteq> [Some (3602879701896397 / 2 ^ 54), Some (8106479329266893 / 2 ^ 53)]"
  by (simp del: not_None_eq add: SUNACTIVITY_diff_def series_sub_def shift_def dropna_def
      f64_series_def is_f64_def f64_max_def
      f64_round_def f64_normalise_numeral round_half_even_def)

subsection \<open>The wrappers\<close>

text \<open>
  The printed table has the routine's statistic, p-value and counts under the labels
  the wrapper gives them: the rows of critical values have other labels and leave
  them alone.
\<close>

lemma map_of_setitem:
  "map_of (setitem t l v) k = (if k = l then Some v else map_of t k)"
  by (induction t) auto

lemma map_of_critical_rows_other:
  "\<forall>key. k \<noteq> ''Critical Value ('' @ key @ '')''
    \<Longrightarrow> map_of (critical_rows base crit) k = map_of base k"
  by (induction crit arbitrary: base) (auto simp: map_of_setitem)

lemma dfoutput_fields:
  "map_of (dfoutput dftest) ''Test Statistic'' = Some (adf_statistic dftest)"
  "map_of (dfoutput dftest) ''p-value'' = Some (adf_pvalue dftest)"
  "map_of (dfoutput dftest) ''#Lags Used'' = Some (real (adf_lags_used dftest))"
  "map_of (dfoutput dftest) ''Number of Observations Used''
     = Some (real (adf_nobs_used dftest))"
  by (simp_all add: dfoutput_def map_of_critical_rows_other)

lemma kpss_output_fields:
  "map_of (kpss_output kpsstest) ''Test Statistic'' = Some (kpss_statistic kpsstest)"
  "map_of (kpss_output kpsstest) ''p-value'' = Some (kpss_pvalue kpsstest)"
  "map_of (kpss_output kpsstest) ''Lags Used'' = Some (real (kpss_lags_used kpsstest))"
  by (simp_all add: kpss_output_def map_of_critical_rows_other)

lemma dfoutput_reveals:
  assumes "dfoutput r = dfoutput r'"
  shows "adf_statistic r = adf_statistic r' \<and> adf_pvalue r = adf_pvalue r' \<and>
    adf_lags_used r = adf_lags_used r' \<and> adf_nobs_used r = adf_nobs_used r'"
  using dfoutput_fields [of r] dfoutput_fields [of r'] unfolding assms by simp

lemma kpss_output_reveals:
  assumes "kpss_output r = kpss_output r'"
  shows "kpss_statistic r = kpss_statistic r' \<and> kpss_pvalue r = kpss_pvalue r' \<and>
    kpss_lags_used r = kpss_lags_used r'"
  using kpss_output_fields [of r] kpss_output_fields [of r'] unfolding assms by simp

text \<open>Two runs of a wrapper that agree come from answers of the routine that agree.\<close>

lemma adf_test_reveals:
  assumes "adf_test f out x = adf_test g out x"
  shows "map_sum id (\<lambda>r. (adf_statistic r, adf_pvalue r, adf_lags_used r, adf_nobs_used r))
        (f x ''AIC'')
    = map_sum id (\<lambda>r. (adf_statistic r, adf_pvalue r, adf_lags_used r, adf_nobs_used r))
        (g x ''AIC'')"
proof (cases "f x ''AIC''"; cases "g x ''AIC''")
  fix r r' assume "f x ''AIC'' = Inr r" "g x ''AIC'' = Inr r'"
  with assms show ?thesis
    using dfoutput_reveals [of r r'] by (simp add: adf_test_def)
qed (use assms in \<open>simp_all add: adf_test_def\<close>)

lemma kpss_test_reveals:
  assumes "kpss_test f out x = kpss_test g out x"
  shows "map_sum id (\<lambda>r. (kpss_statistic r, kpss_pvalue r, kpss_lags_used r))
        (f x ''c'' ''auto'')
    = map_sum id (\<lambda>r. (kpss_statistic r, kpss_pvalue r, kpss_lags_used r))
        (g x ''c'' ''auto'')"
proof (cases "f x ''c'' ''auto''"; cases "g x ''c'' ''auto''")
  fix r r' assume "f x ''c'' ''auto'' = Inr r" "g x ''c'' ''auto'' = Inr r'"
  with assms show ?thesis
    using kpss_output_reveals [of r r'] by (simp add: kpss_test_def)
qed (use assms in \<open>simp_all add: kpss_test_def\<close>)

text \<open>
  C10. For every input series, \<^verbatim>\<open>adf_test\<close> invokes the ADF routine with
  \<^verbatim>\<open>autolag="AIC"\<close> and \<^verbatim>\<open>kpss_test\<close> invokes the KPSS routine with
  \<^verbatim>\<open>regression="c"\<close> and \<^verbatim>\<open>nlags="auto"\<close>; a wrapper takes the series and nothing
  else from its caller. In terms of what a run does:
  \<^item> the run is the heading followed by the routine's answer at these options on the
    series: its table, or its error;
  \<^item> two runs that agree come from answers at these options that agree in error,
    statistic, p-value and counts, so the answer is really used;
  \<^item> a wrapper behaves as if the routine ignored its options and always ran with
    these, and what the routine does at other options never matters.
\<close>

theorem wrappers_fix_their_options:
  "adf_test adfuller out timeseries
     = (case adfuller timeseries ''AIC'' of
          Inl e \<Rightarrow> (out @ [Line ''Results of Dickey-Fuller Test:''], Inl e)
        | Inr dftest \<Rightarrow> (out @ [Line ''Results of Dickey-Fuller Test:'', Table (dfoutput dftest)], Inr ())) \<and>
   kpss_test kpss out' timeseries
     = (case kpss timeseries ''c'' ''auto'' of
          Inl e \<Rightarrow> (out' @ [Line ''Results of KPSS Test:''], Inl e)
        | Inr kpsstest \<Rightarrow> (out' @ [Line ''Results of KPSS Test:'', Table (kpss_output kpsstest)], Inr ())) \<and>
   (adf_test adfuller out timeseries = adf_test adfuller' out timeseries
      \<longrightarrow> map_sum id
            (\<lambda>r. (adf_statistic r, adf_pvalue r, adf_lags_used r, adf_nobs_used r))
            (adfuller timeseries ''AIC'')
          = map_sum id
            (\<lambda>r. (adf_statistic r, adf_pvalue r, adf_lags_used r, adf_nobs_used r))
            (adfuller' timeseries ''AIC'')) \<and>
   (kpss_test kpss out' timeseries = kpss_test kpss' out' timeseries
      \<longrightarrow> map_sum id (\<lambda>r. (kpss_statistic r, kpss_pvalue r, kpss_lags_used r))
            (kpss timeseries ''c'' ''auto'')
          = map_sum id (\<lambda>r. (kpss_statistic r, kpss_pvalue r, kpss_lags_used r))
            (kpss' timeseries ''c'' ''auto'')) \<and>
   adf_test adfuller out timeseries
     = adf_test (\<lambda>x autolag. adfuller x ''AIC'') out timeseries \<and>
   kpss_test kpss out' timeseries
     = kpss_test (\<lambda>x regression nlags. kpss x ''c'' ''auto'') out' timeseries \<and>
   (adfuller timeseries ''AIC'' = adfuller' timeseries ''AIC''
      \<longrightarrow> adf_test adfuller out timeseries = adf_test adfuller' out timeseries) \<and>
   (kpss timeseries ''c'' ''auto'' = kpss' timeseries ''c'' ''auto''
      \<longrightarrow> kpss_test kpss out' timeseries = kpss_test kpss' out' timeseries)"
proof -
  have run_adf: "adf_test adfuller out timeseries
     = (case adfuller timeseries ''AIC'' of
          Inl e \<Rightarrow> (out @ [Line ''Results of Dickey-Fuller Test:''], Inl e)
        | Inr dftest \<Rightarrow> (out @ [Line ''Results of Dickey-Fuller Test:'', Table (dfoutput dftest)], Inr ()))"
    by (simp add: adf_test_def split: sum.splits)
  have run_kpss: "kpss_test kpss out' timeseries
     = (case kpss timeseries ''c'' ''auto'' of
          Inl e \<Rightarrow> (out' @ [Line ''Results of KPSS Test:''], Inl e)
        | Inr kpsstest \<Rightarrow> (out' @ [Line ''Results of KPSS Test:'', Table (kpss_output kpsstest)], Inr ()))"
    by (simp add: kpss_test_def split: sum.splits)
  have fixed_adf: "adf_test adfuller out timeseries
     = adf_test (\<lambda>x autolag. adfuller x ''AIC'') out timeseries"
    by (simp add: adf_test_def)
  have fixed_kpss: "kpss_test kpss out' timeseries
     = kpss_test (\<lambda>x regression nlags. kpss x ''c'' ''auto'') out' timeseries"
    by (simp add: kpss_test_def)
  from run_adf run_kpss fixed_adf fixed_kpss
    adf_test_reveals [of adfuller out timeseries adfuller']
    kpss_test_reveals [of kpss out' timeseries kpss']
    adf_test_cong [of adfuller timeseries adfuller' out]
    kpss_test_cong [of kpss timeseries kpss' out']
  show ?thesis by blast
qed

theorem wrappers_fix_their_options_witness:
  "adf_test
     (\<lambda>x autolag. if autolag = ''AIC''
        then Inr \<lparr>adf_statistic = - 3, adf_pvalue = 1/100, adf_lags_used = 8,
               adf_nobs_used = 300, adf_critical = [(''1%'', - 7/2), (''5%'', - 29/10)]\<rparr>
        else Inl InsufficientDataError)
     [] [Some 5, Some 3, Some 8]
   = ([Line ''Results of Dickey-Fuller Test:'',
       Table [(''Test Statistic'', - 3), (''p-value'', 1/100), (''#Lags Used'', 8),
              (''Number of Observations Used'', 300),
              (''Critical Value (1%)'', - 7/2), (''Critical Value (5%)'', - 29/10)]],
      Inr ()) \<and>
   adf_test
     (\<lambda>x autolag. if autolag = ''AIC''
        then Inr \<lparr>adf_statistic = - 3, adf_pvalue = 1/100, adf_lags_used = 8,
               adf_nobs_used = 300, adf_critical = [(''1%'', - 7/2), (''5%'', - 29/10)]\<rparr>
        else Inl InsufficientDataError)
     [] [Some 5, Some 3, Some 8]
   = adf_test
     (\<lambda>x autolag.
        Inr \<lparr>adf_statistic = - 3, adf_pvalue = 1/100, adf_lags_used = 8,
               adf_nobs_used = 300, adf_critical = [(''1%'', - 7/2), (''5%'', - 29/10)]\<rparr>)
     [] [Some 5, Some 3, Some 8] \<and>
   kpss_test
     (\<lambda>x regression nlags. if regression = ''c'' \<and> nlags = ''auto''
        then Inr \<lparr>kpss_statistic = 2/3, kpss_pvalue = 1/60, kpss_lags_used = 7,
               kpss_critical = [(''10%'', 347/1000)]\<rparr>
        else Inl NonFiniteValueError)
     [] [Some 5, Some 3, Some 8]
   = ([Line ''Results of KPSS Test:'',
       Table [(''Test Statistic'', 2/3), (''p-value'', 1/60), (''Lags Used'', 7),
              (''Critical Value (10%)'', 347/1000)]],
      Inr ()) \<and>
   kpss_test
     (\<lambda>x regression nlags. if regression = ''c'' \<and> nlags = ''auto''
        then Inr \<lparr>kpss_statistic = 2/3, kpss_pvalue = 1/60, kpss_lags_used = 7,
               kpss_critical = [(''10%'', 347/1000)]\<rparr>
        else Inl NonFiniteValueError)
     [] [Some 5, Some 3, Some 8]
   = kpss_test
     (\<lambda>x regression nlags.
        Inr \<lparr>kpss_statistic = 2/3, kpss_pvalue = 1/60, kpss_lags_used = 7,
               kpss_critical = [(''10%'', 347/1000)]\<rparr>)
     [] [Some 5, Some 3, Some 8]"
  using wrappers_fix_their_options [where timeseries = "[Some 5, Some 3, Some 8]"
      and out = "[]" and out' = "[]"
      and adfuller = "\<lambda>x autolag. if autolag = ''AIC''
        then Inr \<lparr>adf_statistic = - 3, adf_pvalue = 1/100, adf_lags_used = 8,
               adf_nobs_used = 300, adf_critical = [(''1%'', - 7/2), (''5%'', - 29/10)]\<rparr>
        else Inl InsufficientDataError"
      and adfuller' = "\<lambda>x autolag.
        Inr \<lparr>adf_statistic = - 3, adf_pvalue = 1/100, adf_lags_used = 8,
               adf_nobs_used = 300, adf_critical = [(''1%'', - 7/2), (''5%'', - 29/10)]\<rparr>"
      and kpss = "\<lambda>x regression nlags. if regression = ''c'' \<and> nlags = ''auto''
        then Inr \<lparr>kpss_statistic = 2/3, kpss_pvalue = 1/60, kpss_lags_used = 7,
               kpss_critical = [(''10%'', 347/1000)]\<rparr>
        else Inl NonFiniteValueError"
      and kpss' = "\<lambda>x regression nlags.
        Inr \<lparr>kpss_statistic = 2/3, kpss_pvalue = 1/60, kpss_lags_used = 7,
               kpss_critical = [(''10%'', 347/1000)]\<rparr>"]
  by (simp add: adf_test_def kpss_test_def dfoutput_def kpss_output_def)


text \<open>
  C5. For every Series shorter than the minimum the routine requires, the ADF routine
  fails with InsufficientDataError, and so does the KPSS routine; a series of
  sufficient length with a NaN fails with NonFiniteValueError. The wrappers have no
  handler: whatever error the routine raises is what the wrapper's caller gets, after
  the heading and nothing else has been printed.
\<close>

theorem short_series_error_surfaces:
  "(length timeseries < min_length ''AIC''
      \<longrightarrow> adf_test (UnitRootTest min_length compute) out timeseries
          = (out @ [Line ''Results of Dickey-Fuller Test:''], Inl InsufficientDataError)) \<and>
   (length timeseries < min_length' ''auto''
      \<longrightarrow> kpss_test (StationarityTest min_length' compute') out timeseries
          = (out @ [Line ''Results of KPSS Test:''], Inl InsufficientDataError)) \<and>
   (min_length ''AIC'' \<le> length timeseries \<and> None \<in> set timeseries
      \<longrightarrow> adf_test (UnitRootTest min_length compute) out timeseries
          = (out @ [Line ''Results of Dickey-Fuller Test:''], Inl NonFiniteValueError)) \<and>
   (min_length' ''auto'' \<le> length timeseries \<and> None \<in> set timeseries
      \<longrightarrow> kpss_test (StationarityTest min_length' compute') out timeseries
          = (out @ [Line ''Results of KPSS Test:''], Inl NonFiniteValueError)) \<and>
   (adfuller timeseries ''AIC'' = Inl e
      \<longrightarrow> adf_test adfuller out timeseries
          = (out @ [Line ''Results of Dickey-Fuller Test:''], Inl e)) \<and>
   (kpss timeseries ''c'' ''auto'' = Inl e
      \<longrightarrow> kpss_test kpss out timeseries = (out @ [Line ''Results of KPSS Test:''], Inl e))"
  by (simp add: adf_test_def kpss_test_def UnitRootTest_def StationarityTest_def)

theorem short_series_error_surfaces_witness:
  "adf_test (UnitRootTest (\<lambda>c. 3)
       (\<lambda>x autolag. \<lparr>adf_statistic = - 3, adf_pvalue = 1/100, adf_lags_used = 0,
          adf_nobs_used = length x, adf_critical = [(''5%'', - 29/10)]\<rparr>))
     [] [Some 1, Some 2]
     = ([Line ''Results of Dickey-Fuller Test:''], Inl InsufficientDataError) \<and>
   kpss_test (StationarityTest (\<lambda>c. 3)
       (\<lambda>x regression nlags. \<lparr>kpss_statistic = 1/10, kpss_pvalue = 1/10,
          kpss_lags_used = 0, kpss_critical = [(''5%'', 463/1000)]\<rparr>))
     [] [Some 1, Some 2]
     = ([Line ''Results of KPSS Test:''], Inl InsufficientDataError) \<and>
   adf_test (UnitRootTest (\<lambda>c. 3)
       (\<lambda>x autolag. \<lparr>adf_statistic = - 3, adf_pvalue = 1/100, adf_lags_used = 0,
          adf_nobs_used = length x, adf_critical = [(''5%'', - 29/10)]\<rparr>))
     [] [Some 1, None, Some 2]
     = ([Line ''Results of Dickey-Fuller Test:''], Inl NonFiniteValueError) \<and>
   kpss_test (StationarityTest (\<lambda>c. 3)
       (\<lambda>x regression nlags. \<lparr>kpss_statistic = 1/10, kpss_pvalue = 1/10,
          kpss_lags_used = 0, kpss_critical = [(''5%'', 463/1000)]\<rparr>))
     [] [Some 1, None, Some 2]
     = ([Line ''Results of KPSS Test:''], Inl NonFiniteValueError)"
  using
    short_series_error_surfaces [where timeseries = "[Some 1, Some 2]" and out = "[]"
      and e = InsufficientDataError
      and min_length = "\<lambda>c. 3" and min_length' = "\<lambda>c. 3"
      and compute = "\<lambda>x autolag. \<lparr>adf_statistic = - 3, adf_pvalue = 1/100, adf_lags_used = 0,
          adf_nobs_used = length x, adf_critical = [(''5%'', - 29/10)]\<rparr>"
      and compute' = "\<lambda>x regression nlags. \<lparr>kpss_statistic = 1/10, kpss_pvalue = 1/10,
          kpss_lags_used = 0, kpss_critical = [(''5%'', 463/1000)]\<rparr>"
      and adfuller = "UnitRootTest (\<lambda>c. 3)
        (\<lambda>x autolag. \<lparr>adf_statistic = - 3, adf_pvalue = 1/100, adf_lags_used = 0,
          adf_nobs_used = length x, adf_critical = [(''5%'', - 29/10)]\<rparr>)"
      and kpss = "StationarityTest (\<lambda>c. 3)
        (\<lambda>x regression nlags. \<lparr>kpss_statistic = 1/10, kpss_pvalue = 1/10,
          kpss_lags_used = 0, kpss_critical = [(''5%'', 463/1000)]\<rparr>)"]
    short_series_error_surfaces [where timeseries = "[Some 1, None, Some 2]" and out = "[]"
      and e = NonFiniteValueError
      and min_length = "\<lambda>c. 3" and min_length' = "\<lambda>c. 3"
      and compute = "\<lambda>x autolag. \<lparr>adf_statistic = - 3, adf_pvalue = 1/100, adf_lags_used = 0,
          adf_nobs_used = length x, adf_critical = [(''5%'', - 29/10)]\<rparr>"
      and compute' = "\<lambda>x regression nlags. \<lparr>kpss_statistic = 1/10, kpss_pvalue = 1/10,
          kpss_lags_used = 0, kpss_critical = [(''5%'', 463/1000)]\<rparr>"
      and adfuller = "UnitRootTest (\<lambda>c. 3)
        (\<lambda>x autolag. \<lparr>adf_statistic = - 3, adf_pvalue = 1/100, adf_lags_used = 0,
          adf_nobs_used = length x, adf_critical = [(''5%'', - 29/10)]\<rparr>)"
      and kpss = "StationarityTest (\<lambda>c. 3)
        (\<lambda>x regression nlags. \<lparr>kpss_statistic = 1/10, kpss_pvalue = 1/10,
          kpss_lags_used = 0, kpss_critical = [(''5%'', 463/1000)]\<rparr>)"]
  by (simp add: UnitRootTest_def StationarityTest_def)

end
